theory Spec2Isabelle
  imports Complex_Main
begin

section \<open>Signed Mises stress: a model of \<^verbatim>\<open>s_mises.py\<close>\<close>

subsection \<open>Arrays\<close>

text \<open>
  A numpy array is its shape together with its elements in row-major order. Numbers are
  taken from an ordered ring (the integers, the rationals, the reals), with exact
  arithmetic.
\<close>

record 'a ndarray =
  shape :: "nat list"
  elems :: "'a list"

definition wf_ndarray :: "'a ndarray \<Rightarrow> bool" where
  "wf_ndarray A = (length (elems A) = prod_list (shape A))"

text \<open>\<^verbatim>\<open>np.asarray\<close> of a rectangular list of lists of numbers.\<close>

definition asarray_rows :: "'a list list \<Rightarrow> 'a ndarray" where
  "asarray_rows rs =
     (case rs of
        [] \<Rightarrow> \<lparr>shape = [0], elems = []\<rparr>
      | r # _ \<Rightarrow> \<lparr>shape = [length rs, length r], elems = concat rs\<rparr>)"

text \<open>Row \<open>i\<close> of a flat buffer whose rows have \<open>c\<close> entries.\<close>

definition chunk :: "nat \<Rightarrow> nat \<Rightarrow> 'a list \<Rightarrow> 'a list" where
  "chunk c i xs = take c (drop (i * c) xs)"

text \<open>The rows of a 2-dimensional array.\<close>

definition rows :: "'a ndarray \<Rightarrow> 'a list list" where
  "rows A = map (\<lambda>i. chunk (shape A ! 1) i (elems A)) [0..<shape A ! 0]"

text \<open>\<^verbatim>\<open>A[:, lo:hi]\<close> for a 2-dimensional array and \<open>0 \<le> lo \<le> hi\<close>.\<close>

definition slice_cols :: "nat \<Rightarrow> nat \<Rightarrow> 'a ndarray \<Rightarrow> 'a ndarray" where
  "slice_cols lo hi A =
     \<lparr>shape = [shape A ! 0, min hi (shape A ! 1) - min lo (shape A ! 1)],
      elems = concat (map (\<lambda>r. take (hi - lo) (drop lo r)) (rows A))\<rparr>"

text \<open>\<^verbatim>\<open>np.sum(A, axis=1)\<close> for a 2-dimensional array.\<close>

definition sum_axis1 :: "'a::monoid_add ndarray \<Rightarrow> 'a ndarray" where
  "sum_axis1 A = \<lparr>shape = [shape A ! 0], elems = map (foldl (+) 0) (rows A)\<rparr>"

text \<open>\<^verbatim>\<open>np.ones_like(A)\<close>.\<close>

definition ones_like :: "'a::one ndarray \<Rightarrow> 'a ndarray" where
  "ones_like A = \<lparr>shape = shape A, elems = map (\<lambda>_. 1) (elems A)\<rparr>"

text \<open>The boolean mask \<^verbatim>\<open>A < c\<close>.\<close>

definition less_scalar :: "'a::ord ndarray \<Rightarrow> 'a \<Rightarrow> bool ndarray" where
  "less_scalar A c = \<lparr>shape = shape A, elems = map (\<lambda>x. x < c) (elems A)\<rparr>"

text \<open>\<^verbatim>\<open>R[M] = v\<close> for a mask \<open>M\<close> of the shape of \<open>R\<close>.\<close>

definition setitem_mask :: "'a ndarray \<Rightarrow> bool ndarray \<Rightarrow> 'a \<Rightarrow> 'a ndarray" where
  "setitem_mask R M v =
     \<lparr>shape = shape R, elems = map (\<lambda>(x, m). if m then v else x) (zip (elems R) (elems M))\<rparr>"

text \<open>\<^verbatim>\<open>A.reshape([-1, 1])\<close>: the first dimension is the number of elements.\<close>

definition reshape_column :: "'a ndarray \<Rightarrow> 'a ndarray" where
  "reshape_column A = \<lparr>shape = [length (elems A) div 1, 1], elems = elems A\<rparr>"

subsection \<open>Errors\<close>

datatype error =
    AssertionError string
  | KeyError string
  | ValueError string
  | OdbError string

subsection \<open>\<^verbatim>\<open>sign_trace\<close>\<close>

definition sign_trace :: "'a::linordered_idom ndarray \<Rightarrow> error + 'a ndarray" where
  "sign_trace A =
     (if 2 \<noteq> length (shape A) then
        Inl (AssertionError ''Data must be a 2D array of tensors'')
      else if 6 \<noteq> shape A ! 1 then
        Inl (AssertionError ''Data elements must be in Abaqus symmetric tensor format'')
      else
        let trace = sum_axis1 (slice_cols 0 3 A);
            result = ones_like trace;
            result = setitem_mask result (less_scalar trace 0) (- 1)
        in Inr (reshape_column result))"

text \<open>The trace \<open>S11 + S22 + S33\<close> of tensor \<open>i\<close> of a batch of six-component tensors.\<close>

definition trace_at :: "'a::linordered_idom ndarray \<Rightarrow> nat \<Rightarrow> 'a" where
  "trace_at A i = elems A ! (6 * i) + elems A ! (6 * i + 1) + elems A ! (6 * i + 2)"

subsection \<open>Element-wise product with broadcasting\<close>

text \<open>
  Two shapes of the same rank broadcast when, in every dimension, the sizes are equal or
  one of them is 1.
\<close>

fun broadcast_shape :: "nat list \<Rightarrow> nat list \<Rightarrow> nat list option" where
  "broadcast_shape [] [] = Some []"
| "broadcast_shape (n # s) (m # t) =
     (if n = m \<or> m = 1 then map_option ((#) n) (broadcast_shape s t)
      else if n = 1 then map_option ((#) m) (broadcast_shape s t)
      else None)"
| "broadcast_shape _ _ = None"

text \<open>
  The elements of the product of two buffers of broadcasting shapes: a dimension of size 1
  repeats its only entry.
\<close>

fun broadcast_mult :: "nat list \<Rightarrow> 'a::times list \<Rightarrow> nat list \<Rightarrow> 'a list \<Rightarrow> 'a list" where
  "broadcast_mult (n # s) xs (m # t) ys =
     concat (map (\<lambda>i. broadcast_mult s (chunk (prod_list s) (if n = 1 then 0 else i) xs)
                                     t (chunk (prod_list t) (if m = 1 then 0 else i) ys))
                 [0..<(if n = 1 then m else n)])"
| "broadcast_mult _ xs _ ys = map (\<lambda>(x, y). x * y) (zip xs ys)"

text \<open>\<^verbatim>\<open>A * B\<close>: the shorter shape is padded with leading ones.\<close>

definition np_multiply :: "'a::times ndarray \<Rightarrow> 'a ndarray \<Rightarrow> error + 'a ndarray" where
  "np_multiply A B =
     (let r = max (length (shape A)) (length (shape B));
          sa = replicate (r - length (shape A)) 1 @ shape A;
          sb = replicate (r - length (shape B)) 1 @ shape B
      in case broadcast_shape sa sb of
           None \<Rightarrow> Inl (ValueError ''operands could not be broadcast together'')
         | Some s \<Rightarrow> Inr \<lparr>shape = s, elems = broadcast_mult sa (elems A) sb (elems B)\<rparr>)"

subsection \<open>Labels and section points\<close>

text \<open>\<^verbatim>\<open>np.unique(A)\<close>: the sorted elements of the flattened array, each once.\<close>

definition np_unique :: "int ndarray \<Rightarrow> int ndarray" where
  "np_unique A =
     (let u = remdups_adj (sort (elems A)) in \<lparr>shape = [length u], elems = u\<rparr>)"

text \<open>The Python values a section point is made of, and their truth values.\<close>

datatype pyval = PyNone | PyInt int | PyStr string | PyObject string

fun truthy :: "pyval \<Rightarrow> bool" where
  "truthy PyNone = False"
| "truthy (PyInt i) = (i \<noteq> 0)"
| "truthy (PyStr s) = (s \<noteq> [])"
| "truthy (PyObject _) = True"

text \<open>\<^verbatim>\<open>np.any(A)\<close>, as a truth value.\<close>

definition np_any :: "pyval ndarray \<Rightarrow> bool" where
  "np_any A = list_ex truthy (elems A)"

subsection \<open>The output database\<close>

text \<open>A block of bulk data of a field output.\<close>

record 'a block =
  position :: string
  blk_instance :: string
  elementLabels :: "int ndarray"
  data :: "'a ndarray"
  sectionPoint :: "pyval ndarray"

text \<open>The keyword arguments of one call of \<^verbatim>\<open>addData\<close>.\<close>

record 'a options =
  opt_position :: string
  opt_instance :: string
  opt_labels :: "int ndarray"
  opt_data :: "'a ndarray"
  opt_sectionPoint :: "pyval ndarray option"

text \<open>
  A field output: what the database holds for it, and the calls of \<^verbatim>\<open>addData\<close>
  it has received, in order.
\<close>

record 'a field =
  fo_name :: string
  fo_description :: string
  fo_type :: string
  bulkDataBlocks :: "'a block list"
  addData_calls :: "'a options list"

record 'a frame =
  frame_description :: string
  fieldOutputs :: "string \<rightharpoonup> 'a field"

record 'a step =
  step_name :: string
  frames :: "'a frame list"

record 'a odb =
  steps :: "(string \<times> 'a step) list"

subsection \<open>\<^verbatim>\<open>calculate\<close>\<close>

definition foName :: string where
  "foName = ''S_MISES''"

text \<open>The body of the loop over the paired blocks, up to the call of \<^verbatim>\<open>addData\<close>.\<close>

definition block_options :: "'a::linordered_idom block \<Rightarrow> 'a block \<Rightarrow> error + 'a options" where
  "block_options Sblock MISESblock =
     (let labels = np_unique (elementLabels MISESblock) in
      case sign_trace (data Sblock) of
        Inl e \<Rightarrow> Inl e
      | Inr s \<Rightarrow>
          (case np_multiply s (data MISESblock) of
             Inl e \<Rightarrow> Inl e
           | Inr d \<Rightarrow>
               let options = \<lparr>opt_position = position MISESblock,
                              opt_instance = blk_instance MISESblock,
                              opt_labels = labels,
                              opt_data = d,
                              opt_sectionPoint = None\<rparr>
               in Inr (if np_any (sectionPoint MISESblock)
                       then options\<lparr>opt_sectionPoint := Some (sectionPoint MISESblock)\<rparr>
                       else options)))"

text \<open>The loop: the field receives one call of \<^verbatim>\<open>addData\<close> for each pair of blocks.\<close>

fun add_blocks ::
  "'a::linordered_idom field \<Rightarrow> ('a block \<times> 'a block) list \<Rightarrow> error option \<times> 'a field" where
  "add_blocks F [] = (None, F)"
| "add_blocks F ((Sblock, MISESblock) # bs) =
     (case block_options Sblock MISESblock of
        Inl e \<Rightarrow> (Some e, F)
      | Inr options \<Rightarrow> add_blocks (F\<lparr>addData_calls := addData_calls F @ [options]\<rparr>) bs)"

text \<open>\<^verbatim>\<open>FieldOutput(name, description, type)\<close>: a new field, with no data yet.\<close>

definition FieldOutput :: "string \<Rightarrow> string \<Rightarrow> string \<Rightarrow> 'a field" where
  "FieldOutput name description type =
     \<lparr>fo_name = name, fo_description = description, fo_type = type,
      bulkDataBlocks = [], addData_calls = []\<rparr>"

text \<open>
  \<^verbatim>\<open>getScalarField\<close> belongs to the database's interface and is a parameter. The new
  field is part of the frame from its creation on, also when a later block raises.
\<close>

definition calculate ::
  "('a::linordered_idom field \<Rightarrow> 'a field) \<Rightarrow> 'a frame \<Rightarrow> error option \<times> 'a frame" where
  "calculate getScalarField outputFrame =
     (case fieldOutputs outputFrame ''S'' of
        None \<Rightarrow> (Some (KeyError ''S''), outputFrame)
      | Some S \<Rightarrow>
          let MISES = getScalarField S;
              S_MISES = FieldOutput foName ''Signed Mises equivalent stress'' (fo_type MISES);
              (err, S_MISES) = add_blocks S_MISES (zip (bulkDataBlocks S) (bulkDataBlocks MISES))
          in (err, outputFrame\<lparr>fieldOutputs := (fieldOutputs outputFrame)(foName \<mapsto> S_MISES)\<rparr>))"

subsection \<open>\<^verbatim>\<open>fromOdb\<close>\<close>

text \<open>
  What the program does to its environment, in order: a call of \<^verbatim>\<open>print\<close>, the
  opening and the closing of a database, a run of the doctests.
\<close>

datatype event = Stdout string | OpenOdb string | CloseOdb string | Doctest

text \<open>The databases by path, and the events so far.\<close>

record 'a world =
  archives :: "string \<rightharpoonup> 'a odb"
  trace :: "event list"

text \<open>The body of the loop over the frames of a step.\<close>

definition visit_frame ::
  "('a::linordered_idom field \<Rightarrow> 'a field) \<Rightarrow> 'a step \<Rightarrow> 'a frame
     \<Rightarrow> error option \<times> event list \<times> 'a frame" where
  "visit_frame getScalarField step frame =
     (if ''S'' \<in> dom (fieldOutputs frame) \<and> \<not> foName \<in> dom (fieldOutputs frame) then
        let (err, frame') = calculate getScalarField frame
        in (err, [Stdout (step_name step @ '' '' @ frame_description frame)], frame')
      else (None, [], frame))"

fun walk_frames ::
  "('a::linordered_idom field \<Rightarrow> 'a field) \<Rightarrow> 'a step \<Rightarrow> 'a frame list
     \<Rightarrow> error option \<times> event list \<times> 'a frame list" where
  "walk_frames g step [] = (None, [], [])"
| "walk_frames g step (frame # rest) =
     (case visit_frame g step frame of
        (Some e, out, frame') \<Rightarrow> (Some e, out, frame' # rest)
      | (None, out, frame') \<Rightarrow>
          (case walk_frames g step rest of
             (err, out', rest') \<Rightarrow> (err, out @ out', frame' # rest')))"

text \<open>The loop over \<^verbatim>\<open>odb.steps.values()\<close>.\<close>

fun walk_steps ::
  "('a::linordered_idom field \<Rightarrow> 'a field) \<Rightarrow> (string \<times> 'a step) list
     \<Rightarrow> error option \<times> event list \<times> (string \<times> 'a step) list" where
  "walk_steps g [] = (None, [], [])"
| "walk_steps g ((key, step) # rest) =
     (case walk_frames g step (frames step) of
        (Some e, out, frames') \<Rightarrow> (Some e, out, (key, step\<lparr>frames := frames'\<rparr>) # rest)
      | (None, out, frames') \<Rightarrow>
          (case walk_steps g rest of
             (err, out', rest') \<Rightarrow> (err, out @ out', (key, step\<lparr>frames := frames'\<rparr>) # rest')))"

text \<open>
  \<^verbatim>\<open>openOdb\<close> raises when there is no database at the path. The database is changed
  in place and closed on every way out of the \<^verbatim>\<open>with\<close> block.
\<close>

definition fromOdb ::
  "('a::linordered_idom field \<Rightarrow> 'a field) \<Rightarrow> string \<Rightarrow> 'a world \<Rightarrow> error option \<times> 'a world" where
  "fromOdb getScalarField odbName w =
     (case archives w odbName of
        None \<Rightarrow> (Some (OdbError odbName), w\<lparr>trace := trace w @ [OpenOdb odbName]\<rparr>)
      | Some odb \<Rightarrow>
          let (err, out, steps') = walk_steps getScalarField (steps odb)
          in (err, \<lparr>archives = (archives w)(odbName \<mapsto> odb\<lparr>steps := steps'\<rparr>),
                     trace = trace w @ [OpenOdb odbName] @ out @ [CloseOdb odbName]\<rparr>))"

subsection \<open>The loop over the arguments\<close>

text \<open>The text of \<^verbatim>\<open>__doc__\<close>.\<close>

definition module_doc :: string where
  "module_doc = concat (map (\<lambda>line. line @ [CHR 0x0A])
     [''Abaqus script to compute signed mises stress'',
      '''',
      ''S_MISES is calculated according to the Abaqus 2023 method, sign(trace(S)),'',
      ''and stored in each frame of the odb file.'',
      '''',
      ''Usage:'',
      '''',
      ''    abaqus python s_mises.py Job-1.odb [Job-2.odb ...]'',
      '''',
      ''Carl Osterwisch, September 2023''])"

text \<open>The body of the loop, for one argument.\<close>

definition handle_arg ::
  "('a::linordered_idom field \<Rightarrow> 'a field) \<Rightarrow> string list \<Rightarrow> string \<Rightarrow> 'a world
     \<Rightarrow> error option \<times> 'a world" where
  "handle_arg g argv arg w =
     (if ''--help'' = arg then (None, w\<lparr>trace := trace w @ [Stdout module_doc]\<rparr>)
      else if ''--test'' = arg then (None, w\<lparr>trace := trace w @ [Doctest]\<rparr>)
      else
        let w = (if length argv > 2 then w\<lparr>trace := trace w @ [Stdout arg]\<rparr> else w)
        in fromOdb g arg w)"

text \<open>The loop: an error leaves it, and the arguments after it are not looked at.\<close>

fun run_args ::
  "('a::linordered_idom field \<Rightarrow> 'a field) \<Rightarrow> string list \<Rightarrow> string list \<Rightarrow> 'a world
     \<Rightarrow> error option \<times> 'a world" where
  "run_args g argv [] w = (None, w)"
| "run_args g argv (arg # args) w =
     (case handle_arg g argv arg w of
        (Some e, w') \<Rightarrow> (Some e, w')
      | (None, w') \<Rightarrow> run_args g argv args w')"

text \<open>The module's top level: \<^verbatim>\<open>for arg in sys.argv[1:]\<close>.\<close>

definition main ::
  "('a::linordered_idom field \<Rightarrow> 'a field) \<Rightarrow> string list \<Rightarrow> 'a world \<Rightarrow> error option \<times> 'a world" where
  "main g argv w = run_args g argv (drop 1 argv) w"

subsection \<open>A small database\<close>

text \<open>
  Two blocks of stress tensors, the first one the three tensors of the example in the
  documentation of \<^verbatim>\<open>sign_trace\<close>, and the blocks of equivalent stress that go with
  them. The second block belongs to a section point.
\<close>

definition demo_S :: "real field" where
  "demo_S =
     \<lparr>fo_name = ''S'', fo_description = ''Stress components'', fo_type = ''TENSOR_3D_FULL'',
      bulkDataBlocks =
        [\<lparr>position = ''INTEGRATION_POINT'', blk_instance = ''PART-1-1'',
          elementLabels = \<lparr>shape = [3], elems = [7, 4, 7]\<rparr>,
          data = asarray_rows
            [[0.1, 0.2, - 0.4, 0.4, 0.5, 0.6],
             [0.2, 0.0, - 0.2, 0.3, - 0.5, 0.0],
             [0.2, 0.0, 0.0, 0.3, - 0.5, 0.0]],
          sectionPoint = \<lparr>shape = [], elems = [PyNone]\<rparr>\<rparr>,
         \<lparr>position = ''INTEGRATION_POINT'', blk_instance = ''PART-2-1'',
          elementLabels = \<lparr>shape = [2], elems = [9, 9]\<rparr>,
          data = asarray_rows [[- 1, - 1, - 1, 0, 0, 0], [3, 0, 0, 0, 0, 0]],
          sectionPoint = \<lparr>shape = [], elems = [PyObject ''SNEG'']\<rparr>\<rparr>],
      addData_calls = []\<rparr>"

definition demo_MISES :: "real field" where
  "demo_MISES =
     \<lparr>fo_name = ''S'', fo_description = ''Stress components'', fo_type = ''SCALAR'',
      bulkDataBlocks =
        [\<lparr>position = ''INTEGRATION_POINT'', blk_instance = ''PART-1-1'',
          elementLabels = \<lparr>shape = [3], elems = [7, 4, 7]\<rparr>,
          data = asarray_rows [[5], [3], [2]],
          sectionPoint = \<lparr>shape = [], elems = [PyNone]\<rparr>\<rparr>,
         \<lparr>position = ''INTEGRATION_POINT'', blk_instance = ''PART-2-1'',
          elementLabels = \<lparr>shape = [2], elems = [9, 9]\<rparr>,
          data = asarray_rows [[0], [3]],
          sectionPoint = \<lparr>shape = [], elems = [PyObject ''SNEG'']\<rparr>\<rparr>],
      addData_calls = []\<rparr>"

definition demo_getScalarField :: "real field \<Rightarrow> real field" where
  "demo_getScalarField S = demo_MISES"

text \<open>The field \<^verbatim>\<open>calculate\<close> builds from them.\<close>

definition demo_S_MISES :: "real field" where
  "demo_S_MISES =
     \<lparr>fo_name = ''S_MISES'', fo_description = ''Signed Mises equivalent stress'',
      fo_type = ''SCALAR'',
      bulkDataBlocks = [],
      addData_calls =
        [\<lparr>opt_position = ''INTEGRATION_POINT'', opt_instance = ''PART-1-1'',
          opt_labels = \<lparr>shape = [2], elems = [4, 7]\<rparr>,
          opt_data = \<lparr>shape = [3, 1], elems = [- 5, 3, 2]\<rparr>,
          opt_sectionPoint = None\<rparr>,
         \<lparr>opt_position = ''INTEGRATION_POINT'', opt_instance = ''PART-2-1'',
          opt_labels = \<lparr>shape = [1], elems = [9]\<rparr>,
          opt_data = \<lparr>shape = [2, 1], elems = [0, 3]\<rparr>,
          opt_sectionPoint = Some \<lparr>shape = [], elems = [PyObject ''SNEG'']\<rparr>\<rparr>]\<rparr>"

text \<open>A frame with stresses, a frame without, and a frame whose tensors have five components.\<close>

definition demo_frame :: "real frame" where
  "demo_frame =
     \<lparr>frame_description = ''Increment 1'', fieldOutputs = [''S'' \<mapsto> demo_S]\<rparr>"

definition demo_frame_done :: "real frame" where
  "demo_frame_done =
     \<lparr>frame_description = ''Increment 1'',
      fieldOutputs = [''S'' \<mapsto> demo_S, ''S_MISES'' \<mapsto> demo_S_MISES]\<rparr>"

definition demo_frame_U :: "real frame" where
  "demo_frame_U =
     \<lparr>frame_description = ''Increment 0'',
      fieldOutputs = [''U'' \<mapsto> FieldOutput ''U'' ''Spatial displacement'' ''VECTOR'']\<rparr>"

definition demo_frame_bad :: "real frame" where
  "demo_frame_bad =
     \<lparr>frame_description = ''Increment 1'',
      fieldOutputs = [''S'' \<mapsto> demo_S\<lparr>bulkDataBlocks :=
        [\<lparr>position = ''INTEGRATION_POINT'', blk_instance = ''PART-1-1'',
          elementLabels = \<lparr>shape = [1], elems = [1]\<rparr>,
          data = asarray_rows [[1, 2, 3, 4, 5]],
          sectionPoint = \<lparr>shape = [], elems = [PyNone]\<rparr>\<rparr>]\<rparr>]\<rparr>"

definition demo_odb :: "real odb" where
  "demo_odb =
     \<lparr>steps = [(''Step-1'', \<lparr>step_name = ''Step-1'', frames = [demo_frame_U, demo_frame]\<rparr>)]\<rparr>"

definition demo_odb_done :: "real odb" where
  "demo_odb_done =
     \<lparr>steps = [(''Step-1'', \<lparr>step_name = ''Step-1'', frames = [demo_frame_U, demo_frame_done]\<rparr>)]\<rparr>"

definition demo_odb_bad :: "real odb" where
  "demo_odb_bad =
     \<lparr>steps = [(''Step-1'', \<lparr>step_name = ''Step-1'', frames = [demo_frame_bad]\<rparr>)]\<rparr>"

definition demo_world :: "real world" where
  "demo_world =
     \<lparr>archives = [''Job-1.odb'' \<mapsto> demo_odb_bad, ''Job-2.odb'' \<mapsto> demo_odb], trace = []\<rparr>"

section \<open>Properties\<close>

subsection \<open>Arrays\<close>

lemma length_chunk:
  "(i + 1) * c \<le> length xs \<Longrightarrow> length (chunk c i xs) = c"
  by (simp add: chunk_def)

lemma nth_chunk:
  "(i + 1) * c \<le> length xs \<Longrightarrow> j < c \<Longrightarrow> chunk c i xs ! j = xs ! (i * c + j)"
  by (simp add: chunk_def)

lemma row_fits:
  assumes "i < n"
  shows "(i + 1) * c \<le> n * (c::nat)"
proof -
  from assms have "i + 1 \<le> n" by simp
  then show ?thesis by (rule mult_le_mono1)
qed

lemma length_rows:
  "shape A = [n, c] \<Longrightarrow> length (rows A) = n"
  by (simp add: rows_def)

lemma nth_rows:
  "shape A = [n, c] \<Longrightarrow> i < n \<Longrightarrow> rows A ! i = chunk c i (elems A)"
  by (simp add: rows_def)

lemma concat_singletons:
  "concat (map (\<lambda>x. [f x]) xs) = map f xs"
  by (induction xs) simp_all

lemma chunk_concat:
  "\<forall>r \<in> set rs. length r = c \<Longrightarrow> i < length rs \<Longrightarrow> chunk c i (concat rs) = rs ! i"
proof (induction rs arbitrary: i)
  case Nil
  then show ?case by simp
next
  case (Cons r rs)
  show ?case
  proof (cases i)
    case 0
    with Cons.prems show ?thesis by (simp add: chunk_def)
  next
    case (Suc k)
    with Cons.prems have "chunk c k (concat rs) = rs ! k"
      by (intro Cons.IH) simp_all
    with Suc Cons.prems show ?thesis by (simp add: chunk_def)
  qed
qed

lemma rows_slice_cols:
  assumes "wf_ndarray A" and "shape A = [n, 6]"
  shows "rows (slice_cols 0 3 A) = map (take 3) (rows A)"
proof (rule nth_equalityI)
  show "length (rows (slice_cols 0 3 A)) = length (map (take 3) (rows A))"
    using assms by (simp add: rows_def slice_cols_def)
next
  fix i assume "i < length (rows (slice_cols 0 3 A))"
  then have i: "i < n" using assms by (simp add: rows_def slice_cols_def)
  have len: "\<forall>r \<in> set (map (take 3) (rows A)). length r = 3"
  proof
    fix r assume "r \<in> set (map (take 3) (rows A))"
    then obtain k where k: "k < n" and r: "r = take 3 (chunk 6 k (elems A))"
      using assms by (auto simp: rows_def)
    from k have "(k + 1) * 6 \<le> n * 6" by (rule row_fits)
    with assms have "length (chunk 6 k (elems A)) = 6"
      by (intro length_chunk) (simp add: wf_ndarray_def)
    with r show "length r = 3" by simp
  qed
  have "rows (slice_cols 0 3 A) ! i = chunk 3 i (concat (map (take 3) (rows A)))"
    using assms i by (simp add: rows_def slice_cols_def)
  also have "\<dots> = map (take 3) (rows A) ! i"
    using len i assms by (intro chunk_concat) (simp_all add: length_rows)
  finally show "rows (slice_cols 0 3 A) ! i = map (take 3) (rows A) ! i" .
qed

lemma foldl_take3:
  fixes r :: "'a::linordered_idom list"
  assumes "length r = 6"
  shows "foldl (+) 0 (take 3 r) = r ! 0 + r ! 1 + r ! 2"
proof -
  from assms obtain a b c d e f where "r = [a, b, c, d, e, f]"
    by (auto simp: length_Suc_conv eval_nat_numeral)
  then show ?thesis by simp
qed

lemma trace_elems:
  fixes A :: "'a::linordered_idom ndarray"
  assumes "wf_ndarray A" and "shape A = [n, 6]"
  shows "elems (sum_axis1 (slice_cols 0 3 A)) = map (trace_at A) [0..<n]"
proof (rule nth_equalityI)
  show "length (elems (sum_axis1 (slice_cols 0 3 A))) = length (map (trace_at A) [0..<n])"
    using assms by (simp add: sum_axis1_def rows_slice_cols length_rows)
next
  fix i assume "i < length (elems (sum_axis1 (slice_cols 0 3 A)))"
  then have i: "i < n"
    using assms by (simp add: sum_axis1_def rows_slice_cols length_rows)
  from i have fits: "(i + 1) * 6 \<le> length (elems A)"
    using assms row_fits [of i n 6] by (simp add: wf_ndarray_def)
  have len: "length (chunk 6 i (elems A)) = 6"
    using fits by (rule length_chunk)
  have "elems (sum_axis1 (slice_cols 0 3 A)) ! i = foldl (+) 0 (take 3 (chunk 6 i (elems A)))"
    using assms i by (simp add: sum_axis1_def rows_slice_cols length_rows nth_rows)
  also have "\<dots> = chunk 6 i (elems A) ! 0 + chunk 6 i (elems A) ! 1 + chunk 6 i (elems A) ! 2"
    using len by (rule foldl_take3)
  also have "\<dots> = trace_at A i"
    using fits by (simp add: nth_chunk trace_at_def mult.commute)
  finally show "elems (sum_axis1 (slice_cols 0 3 A)) ! i = map (trace_at A) [0..<n] ! i"
    using i by simp
qed

lemma sign_trace_conforming:
  fixes A :: "'a::linordered_idom ndarray"
  assumes "wf_ndarray A" and "shape A = [n, 6]"
  shows "sign_trace A =
    Inr \<lparr>shape = [n, 1], elems = map (\<lambda>i. if trace_at A i < 0 then - 1 else 1) [0..<n]\<rparr>"
proof -
  have "elems (sum_axis1 (slice_cols 0 3 A)) = map (trace_at A) [0..<n]"
    using assms by (rule trace_elems)
  then show ?thesis
    using assms
    by (simp add: sign_trace_def Let_def ones_like_def less_scalar_def setitem_mask_def
        reshape_column_def zip_map_map zip_same_conv_map o_def)
qed

subsection \<open>The sign of the trace\<close>





text \<open>
  C10. On the empty batch, of shape \<open>(0, 6)\<close>, \<^verbatim>\<open>sign_trace\<close> returns the empty
  array of shape \<open>(0, 1)\<close>.
\<close>

theorem sign_trace_empty_batch:
  "sign_trace (\<lparr>shape = [0, 6], elems = []\<rparr> :: 'a::linordered_idom ndarray)
     = Inr \<lparr>shape = [0, 1], elems = []\<rparr>"
  by (simp add: sign_trace_def Let_def ones_like_def less_scalar_def setitem_mask_def
      reshape_column_def sum_axis1_def slice_cols_def rows_def)

subsection \<open>Labels and products\<close>

lemma distinct_remdups_adj_sorted:
  fixes xs :: "int list"
  shows "sorted xs \<Longrightarrow> distinct (remdups_adj xs)"
proof (induction xs rule: remdups_adj.induct)
  case 1
  then show ?case by simp
next
  case (2 x)
  then show ?case by simp
next
  case (3 x y xs)
  show ?case
  proof (cases "x = y")
    case True
    with 3 show ?thesis by simp
  next
    case False
    from "3.prems" have "\<forall>z \<in> set (y # xs). x \<le> z" by simp
    moreover from "3.prems" have "\<forall>z \<in> set (y # xs). y \<le> z" by auto
    ultimately have "x \<notin> set (y # xs)" using False by force
    with 3 False show ?thesis by simp
  qed
qed

lemma np_unique_distinct: "distinct (elems (np_unique A))"
  by (simp add: np_unique_def Let_def distinct_remdups_adj_sorted)


lemma np_unique_set: "set (elems (np_unique A)) = set (elems A)"
  by (simp add: np_unique_def Let_def)

lemma np_unique_shape: "shape (np_unique A) = [length (elems (np_unique A))]"
  by (simp add: np_unique_def Let_def)

lemma broadcast_mult_columns:
  fixes xs ys :: "'a::times list"
  assumes "length xs = n" and "length ys = n"
  shows "broadcast_mult [n, 1] xs [n, 1] ys = map (\<lambda>i. xs ! i * ys ! i) [0..<n]"
proof -
  have row: "broadcast_mult [1] (chunk 1 i xs) [1] (chunk 1 i ys) = [xs ! i * ys ! i]"
    if "i < n" for i
  proof -
    from that assms have "chunk 1 i xs = [xs ! i]" "chunk 1 i ys = [ys ! i]"
      by (simp_all add: chunk_def take_Suc_conv_app_nth)
    then show ?thesis by (simp add: chunk_def)
  qed
  have "broadcast_mult [n, 1] xs [n, 1] ys
      = concat (map (\<lambda>i. broadcast_mult [1] (chunk 1 i xs) [1] (chunk 1 i ys))
                 [0..<(if n = 1 then n else n)])"
    by (cases "n = 1") (simp_all add: chunk_def)
  also have "\<dots> = concat (map (\<lambda>i. [xs ! i * ys ! i]) [0..<n])"
  proof -
    have "map (\<lambda>i. broadcast_mult [1] (chunk 1 i xs) [1] (chunk 1 i ys)) [0..<n]
        = map (\<lambda>i. [xs ! i * ys ! i]) [0..<n]"
    proof (rule map_cong [OF refl])
      fix i assume "i \<in> set [0..<n]"
      then have "i < n" by simp
      then show "broadcast_mult [1] (chunk 1 i xs) [1] (chunk 1 i ys) = [xs ! i * ys ! i]"
        by (rule row)
    qed
    then show ?thesis by (simp only: if_cancel)
  qed
  also have "\<dots> = map (\<lambda>i. xs ! i * ys ! i) [0..<n]"
    by (rule concat_singletons)
  finally show ?thesis .
qed

lemma np_multiply_columns:
  fixes A B :: "'a::times ndarray"
  assumes "shape A = [n, 1]" and "shape B = [n, 1]"
    and "length (elems A) = n" and "length (elems B) = n"
  shows "np_multiply A B =
    Inr \<lparr>shape = [n, 1], elems = map (\<lambda>i. elems A ! i * elems B ! i) [0..<n]\<rparr>"
  using assms broadcast_mult_columns [of "elems A" n "elems B"]
  by (simp add: np_multiply_def Let_def del: broadcast_mult.simps)

subsection \<open>The calls of \<^verbatim>\<open>addData\<close> made by \<^verbatim>\<open>calculate\<close>\<close>

lemma block_options_Inr:
  assumes "block_options Sb Mb = Inr opts"
  shows "opt_position opts = position Mb"
    and "opt_instance opts = blk_instance Mb"
    and "opt_labels opts = np_unique (elementLabels Mb)"
    and "opt_sectionPoint opts = (if np_any (sectionPoint Mb) then Some (sectionPoint Mb) else None)"
    and "\<exists>s. sign_trace (data Sb) = Inr s \<and> np_multiply s (data Mb) = Inr (opt_data opts)"
  using assms by (auto simp: block_options_def Let_def split: sum.splits if_splits)

lemma add_blocks_calls:
  "add_blocks F bs = (err, F') \<Longrightarrow>
     \<exists>os. addData_calls F' = addData_calls F @ os \<and> length os \<le> length bs \<and>
          (err = None \<longrightarrow> length os = length bs) \<and>
          (\<forall>k<length os. block_options (fst (bs ! k)) (snd (bs ! k)) = Inr (os ! k))"
proof (induction bs arbitrary: F)
  case Nil
  then show ?case by simp
next
  case (Cons b bs)
  obtain Sb Mb where b: "b = (Sb, Mb)" by (cases b)
  show ?case
  proof (cases "block_options Sb Mb")
    case (Inl e)
    with Cons.prems b show ?thesis by auto
  next
    case (Inr opts)
    with Cons.prems b
    have "add_blocks (F\<lparr>addData_calls := addData_calls F @ [opts]\<rparr>) bs = (err, F')"
      by simp
    from Cons.IH [OF this] obtain os where
      os: "addData_calls F' = (addData_calls F @ [opts]) @ os" "length os \<le> length bs"
        "err = None \<longrightarrow> length os = length bs"
        "\<forall>k<length os. block_options (fst (bs ! k)) (snd (bs ! k)) = Inr (os ! k)"
      by auto
    have "\<forall>k<length (opts # os).
        block_options (fst ((b # bs) ! k)) (snd ((b # bs) ! k)) = Inr ((opts # os) ! k)"
    proof (intro allI impI)
      fix k assume "k < length (opts # os)"
      then show "block_options (fst ((b # bs) ! k)) (snd ((b # bs) ! k)) = Inr ((opts # os) ! k)"
        using os(4) Inr b by (cases k) simp_all
    qed
    with os show ?thesis
      by (intro exI [of _ "opts # os"]) simp
  qed
qed

lemma add_blocks_all:
  "\<forall>b \<in> set bs. \<exists>opts. block_options (fst b) (snd b) = Inr opts \<Longrightarrow>
     fst (add_blocks F bs) = None \<and> length (addData_calls (snd (add_blocks F bs))) = length (addData_calls F) + length bs"
proof (induction bs arbitrary: F)
  case Nil
  then show ?case by simp
next
  case (Cons b bs)
  obtain Sb Mb where b: "b = (Sb, Mb)" by (cases b)
  from Cons.prems b obtain opts where opts: "block_options Sb Mb = Inr opts" by auto
  from Cons.prems have "\<forall>b \<in> set bs. \<exists>opts. block_options (fst b) (snd b) = Inr opts" by simp
  from Cons.IH [OF this, of "F\<lparr>addData_calls := addData_calls F @ [opts]\<rparr>"] b opts
  show ?case by simp
qed

lemma calculate_field:
  assumes "fieldOutputs fr ''S'' = Some S"
  shows "calculate g fr =
           (fst (add_blocks (FieldOutput foName ''Signed Mises equivalent stress'' (fo_type (g S))) (zip (bulkDataBlocks S) (bulkDataBlocks (g S)))),
            fr\<lparr>fieldOutputs := (fieldOutputs fr)(foName \<mapsto>
               snd (add_blocks (FieldOutput foName ''Signed Mises equivalent stress'' (fo_type (g S))) (zip (bulkDataBlocks S) (bulkDataBlocks (g S)))))\<rparr>)"
  using assms by (simp add: calculate_def Let_def split_beta)

lemma FieldOutput_calls: "addData_calls (FieldOutput name description type) = []"
  by (simp add: FieldOutput_def)

lemma calculate_calls:
  assumes S: "fieldOutputs fr ''S'' = Some S"
  shows "\<exists>F. fieldOutputs (snd (calculate g fr)) foName = Some F \<and>
          snd (calculate g fr) = fr\<lparr>fieldOutputs := (fieldOutputs fr)(foName \<mapsto> F)\<rparr> \<and>
          length (addData_calls F) \<le> length (bulkDataBlocks S) \<and>
          length (addData_calls F) \<le> length (bulkDataBlocks (g S)) \<and>
          (\<forall>k<length (addData_calls F).
             block_options (bulkDataBlocks S ! k) (bulkDataBlocks (g S) ! k)
               = Inr (addData_calls F ! k))"
proof -
  let ?bs = "zip (bulkDataBlocks S) (bulkDataBlocks (g S))"
  define F0 :: "'a field"
    where "F0 = FieldOutput foName ''Signed Mises equivalent stress'' (fo_type (g S))"
  have c: "calculate g fr =
          (fst (add_blocks F0 ?bs), fr\<lparr>fieldOutputs := (fieldOutputs fr)(foName \<mapsto> snd (add_blocks F0 ?bs))\<rparr>)"
    unfolding F0_def using S by (rule calculate_field)
  have F0: "addData_calls F0 = []"
    unfolding F0_def by (rule FieldOutput_calls)
  let ?F = "snd (add_blocks F0 ?bs)"
  have "add_blocks F0 ?bs = (fst (add_blocks F0 ?bs), ?F)" by simp
  from add_blocks_calls [OF this] F0 obtain os where
    os: "addData_calls ?F = os" "length os \<le> length ?bs"
      "\<forall>k<length os. block_options (fst (?bs ! k)) (snd (?bs ! k)) = Inr (os ! k)"
    by auto
  have "\<forall>k<length (addData_calls ?F).
      block_options (bulkDataBlocks S ! k) (bulkDataBlocks (g S) ! k) = Inr (addData_calls ?F ! k)"
  proof (intro allI impI)
    fix k assume k: "k < length (addData_calls ?F)"
    with os have "k < length ?bs" by simp
    then have "?bs ! k = (bulkDataBlocks S ! k, bulkDataBlocks (g S) ! k)" by simp
    with os k show "block_options (bulkDataBlocks S ! k) (bulkDataBlocks (g S) ! k)
        = Inr (addData_calls ?F ! k)"
      by (metis fst_conv snd_conv)
  qed
  with c os show ?thesis
    by (intro exI [of _ ?F]) simp
qed

lemma calculate_complete:
  assumes S: "fieldOutputs fr ''S'' = Some S"
    and ok: "\<forall>k<min (length (bulkDataBlocks S)) (length (bulkDataBlocks (g S))).
               \<exists>opts. block_options (bulkDataBlocks S ! k) (bulkDataBlocks (g S) ! k) = Inr opts"
  shows "fst (calculate g fr) = None"
    and "\<exists>F. fieldOutputs (snd (calculate g fr)) foName = Some F \<and>
          length (addData_calls F) = min (length (bulkDataBlocks S)) (length (bulkDataBlocks (g S)))"
proof -
  let ?bs = "zip (bulkDataBlocks S) (bulkDataBlocks (g S))"
  define F0 :: "'a field"
    where "F0 = FieldOutput foName ''Signed Mises equivalent stress'' (fo_type (g S))"
  have c: "calculate g fr =
          (fst (add_blocks F0 ?bs), fr\<lparr>fieldOutputs := (fieldOutputs fr)(foName \<mapsto> snd (add_blocks F0 ?bs))\<rparr>)"
    unfolding F0_def using S by (rule calculate_field)
  have F0: "addData_calls F0 = []"
    unfolding F0_def by (rule FieldOutput_calls)
  have "\<forall>b \<in> set ?bs. \<exists>opts. block_options (fst b) (snd b) = Inr opts"
  proof
    fix b assume "b \<in> set ?bs"
    then obtain k where k: "k < length ?bs" and b: "b = ?bs ! k"
      by (auto simp: in_set_conv_nth)
    from k b have "b = (bulkDataBlocks S ! k, bulkDataBlocks (g S) ! k)" by simp
    with ok k show "\<exists>opts. block_options (fst b) (snd b) = Inr opts" by simp
  qed
  from add_blocks_all [OF this, of F0] F0
  have r: "fst (add_blocks F0 ?bs) = None" "length (addData_calls (snd (add_blocks F0 ?bs))) = length ?bs"
    by simp_all
  from c r show "fst (calculate g fr) = None" by simp
  from c r show "\<exists>F. fieldOutputs (snd (calculate g fr)) foName = Some F \<and>
          length (addData_calls F) = min (length (bulkDataBlocks S)) (length (bulkDataBlocks (g S)))"
    by simp
qed

subsection \<open>\<^verbatim>\<open>calculate\<close> on the small database\<close>

lemma demo_sign_trace_0:
  "sign_trace (data (bulkDataBlocks demo_S ! 0)) = Inr \<lparr>shape = [3, 1], elems = [- 1, 1, 1]\<rparr>"
  by (simp add: demo_S_def sign_trace_def Let_def ones_like_def less_scalar_def setitem_mask_def
        reshape_column_def asarray_rows_def sum_axis1_def slice_cols_def rows_def chunk_def upt_rec)

lemma demo_sign_trace_1:
  "sign_trace (data (bulkDataBlocks demo_S ! 1)) = Inr \<lparr>shape = [2, 1], elems = [- 1, 1]\<rparr>"
  by (simp add: demo_S_def sign_trace_def Let_def ones_like_def less_scalar_def setitem_mask_def
        reshape_column_def asarray_rows_def sum_axis1_def slice_cols_def rows_def chunk_def upt_rec)

lemma demo_block_options_0:
  "block_options (bulkDataBlocks demo_S ! 0) (bulkDataBlocks demo_MISES ! 0)
     = Inr (addData_calls demo_S_MISES ! 0)"
proof -
  have "np_multiply \<lparr>shape = [3, 1], elems = [- 1, 1, 1]\<rparr> (data (bulkDataBlocks demo_MISES ! 0))
      = Inr \<lparr>shape = [3, 1], elems = [- 5, 3, 2 :: real]\<rparr>"
    by (simp add: demo_MISES_def asarray_rows_def np_multiply_def Let_def chunk_def upt_rec)
  then show ?thesis
    using demo_sign_trace_0
    by (simp add: block_options_def Let_def)
      (simp add: demo_MISES_def demo_S_MISES_def np_unique_def np_any_def)
qed

lemma demo_block_options_1:
  "block_options (bulkDataBlocks demo_S ! 1) (bulkDataBlocks demo_MISES ! 1)
     = Inr (addData_calls demo_S_MISES ! 1)"
proof -
  have "np_multiply \<lparr>shape = [2, 1], elems = [- 1, 1]\<rparr> (data (bulkDataBlocks demo_MISES ! 1))
      = Inr \<lparr>shape = [2, 1], elems = [0, 3 :: real]\<rparr>"
    by (simp add: demo_MISES_def asarray_rows_def np_multiply_def Let_def chunk_def upt_rec)
  then show ?thesis
    using demo_sign_trace_1
    by (simp add: block_options_def Let_def)
      (simp add: demo_MISES_def demo_S_MISES_def np_unique_def np_any_def)
qed

lemma demo_calculate:
  "calculate demo_getScalarField demo_frame = (None, demo_frame_done)"
proof -
  have S: "fieldOutputs demo_frame ''S'' = Some demo_S"
    by (simp add: demo_frame_def)
  have bs: "zip (bulkDataBlocks demo_S) (bulkDataBlocks demo_MISES)
      = [(bulkDataBlocks demo_S ! 0, bulkDataBlocks demo_MISES ! 0),
         (bulkDataBlocks demo_S ! 1, bulkDataBlocks demo_MISES ! 1)]"
    by (simp add: demo_S_def demo_MISES_def)
  have "add_blocks (FieldOutput foName ''Signed Mises equivalent stress'' (fo_type demo_MISES))
      (zip (bulkDataBlocks demo_S) (bulkDataBlocks demo_MISES)) = (None, demo_S_MISES)"
    unfolding bs
    by (simp only: add_blocks.simps demo_block_options_0 demo_block_options_1 sum.case)
      (simp add: FieldOutput_def demo_S_MISES_def demo_MISES_def foName_def)
  with calculate_field [OF S, of demo_getScalarField] show ?thesis
    by (simp add: demo_getScalarField_def)
      (simp add: demo_frame_def demo_frame_done_def foName_def)
qed

lemma demo_frame_S: "fieldOutputs demo_frame ''S'' = Some demo_S"
  by (simp add: demo_frame_def)

lemma demo_frame_done_S_MISES:
  "fieldOutputs (snd (calculate demo_getScalarField demo_frame)) foName = Some demo_S_MISES"
  by (simp add: demo_calculate demo_frame_done_def foName_def)

lemma demo_calls_length: "length (addData_calls demo_S_MISES) = 2"
  by (simp add: demo_S_MISES_def)

lemma calculate_emitted:
  fixes g :: "'a::linordered_idom field \<Rightarrow> 'a field"
  assumes "fieldOutputs fr ''S'' = Some S"
    and "fieldOutputs (snd (calculate g fr)) foName = Some F"
    and "k < length (addData_calls F)"
  shows "block_options (bulkDataBlocks S ! k) (bulkDataBlocks (g S) ! k) = Inr (addData_calls F ! k)"
    and "k < length (bulkDataBlocks (g S))"
proof -
  from calculate_calls [where g = g, OF assms(1)] assms(2) have
    "length (addData_calls F) \<le> length (bulkDataBlocks (g S))"
    and "\<forall>k<length (addData_calls F).
      block_options (bulkDataBlocks S ! k) (bulkDataBlocks (g S) ! k) = Inr (addData_calls F ! k)"
    by auto
  with assms(3) show
    "block_options (bulkDataBlocks S ! k) (bulkDataBlocks (g S) ! k) = Inr (addData_calls F ! k)"
    and "k < length (bulkDataBlocks (g S))"
    by auto
qed

subsection \<open>The blocks \<^verbatim>\<open>calculate\<close> emits\<close>

text \<open>
  C2. When every pair of blocks holds \<open>n\<close> tensors, as an array of shape \<open>(n, 6)\<close>, and
  \<open>n\<close> equivalent stresses, as an array of shape \<open>(n, 1)\<close>, \<^verbatim>\<open>calculate\<close> raises no
  error and passes one data array for each pair to \<^verbatim>\<open>addData\<close>: the array has the shape
  of the block of equivalent stresses, and its value at index \<open>i\<close> is the equivalent stress
  at \<open>i\<close> times the sign \<^verbatim>\<open>sign_trace\<close> computes for tensor \<open>i\<close>.
\<close>

theorem calculate_product:
  fixes g :: "'a::linordered_idom field \<Rightarrow> 'a field"
  assumes S: "fieldOutputs fr ''S'' = Some S"
    and conforming:
      "\<forall>k<min (length (bulkDataBlocks S)) (length (bulkDataBlocks (g S))).
         \<exists>n. wf_ndarray (data (bulkDataBlocks S ! k)) \<and> shape (data (bulkDataBlocks S ! k)) = [n, 6] \<and>
             wf_ndarray (data (bulkDataBlocks (g S) ! k)) \<and>
             shape (data (bulkDataBlocks (g S) ! k)) = [n, 1]"
  shows "fst (calculate g fr) = None \<and>
    (\<exists>F. fieldOutputs (snd (calculate g fr)) foName = Some F \<and>
       length (addData_calls F) = min (length (bulkDataBlocks S)) (length (bulkDataBlocks (g S))) \<and>
       (\<forall>k<length (addData_calls F).
          \<exists>s. sign_trace (data (bulkDataBlocks S ! k)) = Inr s \<and>
              shape (opt_data (addData_calls F ! k)) = shape (data (bulkDataBlocks (g S) ! k)) \<and>
              length (elems (opt_data (addData_calls F ! k)))
                = length (elems (data (bulkDataBlocks (g S) ! k))) \<and>
              (\<forall>i<length (elems (data (bulkDataBlocks (g S) ! k))).
                 elems (opt_data (addData_calls F ! k)) ! i
                   = elems s ! i * elems (data (bulkDataBlocks (g S) ! k)) ! i)))"
proof -
  let ?Sb = "\<lambda>k. bulkDataBlocks S ! k" and ?Mb = "\<lambda>k. bulkDataBlocks (g S) ! k"
  let ?m = "min (length (bulkDataBlocks S)) (length (bulkDataBlocks (g S)))"
  have product: "\<exists>s d. sign_trace (data (?Sb k)) = Inr s \<and> np_multiply s (data (?Mb k)) = Inr d \<and>
      shape d = shape (data (?Mb k)) \<and> length (elems d) = length (elems (data (?Mb k))) \<and>
      (\<forall>i<length (elems (data (?Mb k))). elems d ! i = elems s ! i * elems (data (?Mb k)) ! i)"
    if "k < ?m" for k
  proof -
    from conforming that obtain n where
      n: "wf_ndarray (data (?Sb k))" "shape (data (?Sb k)) = [n, 6]"
        "wf_ndarray (data (?Mb k))" "shape (data (?Mb k)) = [n, 1]"
      by blast
    let ?s = "\<lparr>shape = [n, 1], elems = map (\<lambda>i. if trace_at (data (?Sb k)) i < 0 then - 1 else 1) [0..<n]\<rparr>"
    have s: "sign_trace (data (?Sb k)) = Inr ?s"
      using n(1,2) by (rule sign_trace_conforming)
    from n(3,4) have len: "length (elems (data (?Mb k))) = n"
      by (simp add: wf_ndarray_def)
    have "np_multiply ?s (data (?Mb k)) =
        Inr \<lparr>shape = [n, 1], elems = map (\<lambda>i. elems ?s ! i * elems (data (?Mb k)) ! i) [0..<n]\<rparr>"
      using n(4) len by (intro np_multiply_columns) simp_all
    with s n(4) len show ?thesis by simp
  qed
  have ok: "\<forall>k<?m. \<exists>opts. block_options (?Sb k) (?Mb k) = Inr opts"
  proof (intro allI impI)
    fix k assume "k < ?m"
    from product [OF this] obtain s d where
      "sign_trace (data (?Sb k)) = Inr s" "np_multiply s (data (?Mb k)) = Inr d"
      by blast
    then show "\<exists>opts. block_options (?Sb k) (?Mb k) = Inr opts"
      by (simp add: block_options_def Let_def)
  qed
  from calculate_complete(1) [where g = g, OF S ok] have none: "fst (calculate g fr) = None" by simp
  from calculate_calls [OF S, of g] obtain F where
    F: "fieldOutputs (snd (calculate g fr)) foName = Some F"
    and calls: "\<forall>k<length (addData_calls F). block_options (?Sb k) (?Mb k) = Inr (addData_calls F ! k)"
    by blast
  from calculate_complete(2) [where g = g, OF S ok] F have len: "length (addData_calls F) = ?m"
    by auto
  have "\<exists>s. sign_trace (data (?Sb k)) = Inr s \<and>
              shape (opt_data (addData_calls F ! k)) = shape (data (?Mb k)) \<and>
              length (elems (opt_data (addData_calls F ! k))) = length (elems (data (?Mb k))) \<and>
              (\<forall>i<length (elems (data (?Mb k))).
                 elems (opt_data (addData_calls F ! k)) ! i = elems s ! i * elems (data (?Mb k)) ! i)"
    if k: "k < length (addData_calls F)" for k
  proof -
    from k len have "k < ?m" by simp
    from product [OF this] obtain s d where
      sd: "sign_trace (data (?Sb k)) = Inr s" "np_multiply s (data (?Mb k)) = Inr d"
        "shape d = shape (data (?Mb k))" "length (elems d) = length (elems (data (?Mb k)))"
        "\<forall>i<length (elems (data (?Mb k))). elems d ! i = elems s ! i * elems (data (?Mb k)) ! i"
      by blast
    from calls k have "block_options (?Sb k) (?Mb k) = Inr (addData_calls F ! k)" by simp
    from block_options_Inr(5) [OF this] sd(1,2) have "opt_data (addData_calls F ! k) = d"
      by auto
    with sd show ?thesis by blast
  qed
  with none F len show ?thesis by blast
qed

text \<open>The first block of the small database: signs \<open>-1, 1, 1\<close>, stresses \<open>5, 3, 2\<close>.\<close>

theorem calculate_product_witness:
  "fst (calculate demo_getScalarField demo_frame) = None \<and>
   fieldOutputs (snd (calculate demo_getScalarField demo_frame)) foName = Some demo_S_MISES \<and>
   sign_trace (data (bulkDataBlocks demo_S ! 0)) = Inr \<lparr>shape = [3, 1], elems = [- 1, 1, 1]\<rparr> \<and>
   elems (data (bulkDataBlocks demo_MISES ! 0)) = [5, 3, 2] \<and>
   elems (opt_data (addData_calls demo_S_MISES ! 0)) = [- 1 * 5, 1 * 3, 1 * 2] \<and>
   shape (opt_data (addData_calls demo_S_MISES ! 0)) = shape (data (bulkDataBlocks demo_MISES ! 0))"
proof -
  have conforming:
    "\<forall>k<min (length (bulkDataBlocks demo_S)) (length (bulkDataBlocks (demo_getScalarField demo_S))).
       \<exists>n. wf_ndarray (data (bulkDataBlocks demo_S ! k)) \<and>
           shape (data (bulkDataBlocks demo_S ! k)) = [n, 6] \<and>
           wf_ndarray (data (bulkDataBlocks (demo_getScalarField demo_S) ! k)) \<and>
           shape (data (bulkDataBlocks (demo_getScalarField demo_S) ! k)) = [n, 1]"
    by (simp add: demo_getScalarField_def demo_S_def demo_MISES_def wf_ndarray_def
        asarray_rows_def less_Suc_eq eval_nat_numeral)
  from calculate_product [where g = demo_getScalarField, OF demo_frame_S conforming] obtain F where
    none: "fst (calculate demo_getScalarField demo_frame) = None"
    and F: "fieldOutputs (snd (calculate demo_getScalarField demo_frame)) foName = Some F"
    and prod: "\<forall>k<length (addData_calls F).
          \<exists>s. sign_trace (data (bulkDataBlocks demo_S ! k)) = Inr s \<and>
              shape (opt_data (addData_calls F ! k))
                = shape (data (bulkDataBlocks (demo_getScalarField demo_S) ! k)) \<and>
              length (elems (opt_data (addData_calls F ! k)))
                = length (elems (data (bulkDataBlocks (demo_getScalarField demo_S) ! k))) \<and>
              (\<forall>i<length (elems (data (bulkDataBlocks (demo_getScalarField demo_S) ! k))).
                 elems (opt_data (addData_calls F ! k)) ! i
                   = elems s ! i * elems (data (bulkDataBlocks (demo_getScalarField demo_S) ! k)) ! i)"
    by blast
  from F demo_frame_done_S_MISES have F_eq: "F = demo_S_MISES" by simp
  have M: "elems (data (bulkDataBlocks demo_MISES ! 0)) = [5, 3, 2]"
    by (simp add: demo_MISES_def asarray_rows_def)
  have "0 < length (addData_calls F)"
    using F_eq demo_calls_length by simp
  with prod obtain s where
    s: "sign_trace (data (bulkDataBlocks demo_S ! 0)) = Inr s"
    and sh0: "shape (opt_data (addData_calls F ! 0))
        = shape (data (bulkDataBlocks (demo_getScalarField demo_S) ! 0))"
    and len0: "length (elems (opt_data (addData_calls F ! 0)))
        = length (elems (data (bulkDataBlocks (demo_getScalarField demo_S) ! 0)))"
    and vals0: "\<forall>i<length (elems (data (bulkDataBlocks (demo_getScalarField demo_S) ! 0))).
        elems (opt_data (addData_calls F ! 0)) ! i
          = elems s ! i * elems (data (bulkDataBlocks (demo_getScalarField demo_S) ! 0)) ! i"
    by blast
  from s demo_sign_trace_0 have s_eq: "s = \<lparr>shape = [3, 1], elems = [- 1, 1, 1]\<rparr>"
    by simp
  from sh0 F_eq have sh: "shape (opt_data (addData_calls demo_S_MISES ! 0))
      = shape (data (bulkDataBlocks demo_MISES ! 0))"
    by (simp add: demo_getScalarField_def)
  from len0 F_eq have len: "length (elems (opt_data (addData_calls demo_S_MISES ! 0))) = 3"
    by (simp add: demo_getScalarField_def M)
  from vals0 F_eq s_eq
  have vals: "\<forall>i<3. elems (opt_data (addData_calls demo_S_MISES ! 0)) ! i
         = [- 1, 1, 1] ! i * [5, 3, 2 :: real] ! i"
    by (simp add: demo_getScalarField_def M)
  have "elems (opt_data (addData_calls demo_S_MISES ! 0)) = [- 1 * 5, 1 * 3, 1 * 2]"
  proof (rule nth_equalityI)
    show "length (elems (opt_data (addData_calls demo_S_MISES ! 0))) = length [- 1 * 5, 1 * 3, 1 * 2 :: real]"
      using len by simp
  next
    fix i assume "i < length (elems (opt_data (addData_calls demo_S_MISES ! 0)))"
    with len have i: "i < 3" by simp
    with vals have "elems (opt_data (addData_calls demo_S_MISES ! 0)) ! i
         = [- 1, 1, 1] ! i * [5, 3, 2 :: real] ! i" by blast
    moreover from i have "i = 0 \<or> i = 1 \<or> i = 2" by auto
    ultimately show "elems (opt_data (addData_calls demo_S_MISES ! 0)) ! i = [- 1 * 5, 1 * 3, 1 * 2] ! i"
      by auto
  qed
  with none F F_eq demo_sign_trace_0 M sh show ?thesis by simp
qed

text \<open>
  C5. The labels of every block that \<^verbatim>\<open>calculate\<close> passes to \<^verbatim>\<open>addData\<close> are
  the element labels of the source block with no label repeated.
\<close>

theorem calculate_labels_distinct:
  fixes g :: "'a::linordered_idom field \<Rightarrow> 'a field"
  assumes "fieldOutputs fr ''S'' = Some S"
    and "fieldOutputs (snd (calculate g fr)) foName = Some F"
    and "k < length (addData_calls F)"
  shows "distinct (elems (opt_labels (addData_calls F ! k))) \<and>
         set (elems (opt_labels (addData_calls F ! k)))
           = set (elems (elementLabels (bulkDataBlocks (g S) ! k)))"
proof -
  from assms have "block_options (bulkDataBlocks S ! k) (bulkDataBlocks (g S) ! k)
      = Inr (addData_calls F ! k)"
    by (rule calculate_emitted)
  then have "opt_labels (addData_calls F ! k) = np_unique (elementLabels (bulkDataBlocks (g S) ! k))"
    by (rule block_options_Inr)
  then show ?thesis
    by (simp add: np_unique_distinct np_unique_set)
qed

text \<open>The element labels \<open>7, 4, 7\<close> of the first block of the small database.\<close>

theorem calculate_labels_distinct_witness:
  "elems (elementLabels (bulkDataBlocks (demo_getScalarField demo_S) ! 0)) = [7, 4, 7] \<and>
   fieldOutputs (snd (calculate demo_getScalarField demo_frame)) foName = Some demo_S_MISES \<and>
   distinct (elems (opt_labels (addData_calls demo_S_MISES ! 0))) \<and>
   set (elems (opt_labels (addData_calls demo_S_MISES ! 0))) = {4, 7}"
proof -
  have k: "0 < length (addData_calls demo_S_MISES)"
    by (simp add: demo_S_MISES_def)
  have src: "elems (elementLabels (bulkDataBlocks (demo_getScalarField demo_S) ! 0)) = [7, 4, 7]"
    by (simp add: demo_getScalarField_def demo_MISES_def)
  from calculate_labels_distinct [where g = demo_getScalarField,
      OF demo_frame_S demo_frame_done_S_MISES k] src
  have "distinct (elems (opt_labels (addData_calls demo_S_MISES ! 0)))"
    and "set (elems (opt_labels (addData_calls demo_S_MISES ! 0))) = {4, 7}"
    by auto
  with src demo_frame_done_S_MISES show ?thesis by simp
qed





subsection \<open>The walk over the frames\<close>

lemma calculate_dom:
  assumes "''S'' \<in> dom (fieldOutputs fr)"
  shows "foName \<in> dom (fieldOutputs (snd (calculate g fr)))"
proof -
  from assms obtain S where "fieldOutputs fr ''S'' = Some S" by blast
  then show ?thesis by (simp add: calculate_field)
qed

lemma visit_frame_skip:
  "\<not> (''S'' \<in> dom (fieldOutputs fr) \<and> foName \<notin> dom (fieldOutputs fr)) \<Longrightarrow>
     visit_frame g st fr = (None, [], fr)"
  by (auto simp: visit_frame_def)

lemma visit_frame_calculate:
  "''S'' \<in> dom (fieldOutputs fr) \<Longrightarrow> foName \<notin> dom (fieldOutputs fr) \<Longrightarrow>
     visit_frame g st fr =
       (fst (calculate g fr), [Stdout (step_name st @ '' '' @ frame_description fr)],
        snd (calculate g fr))"
  by (simp add: visit_frame_def split_beta)

lemma walk_frames_None:
  "walk_frames g st frs = (None, out, frs') \<Longrightarrow>
     frs' = map (\<lambda>fr. if ''S'' \<in> dom (fieldOutputs fr) \<and> foName \<notin> dom (fieldOutputs fr)
                       then snd (calculate g fr) else fr) frs \<and>
     out = map (\<lambda>fr. Stdout (step_name st @ '' '' @ frame_description fr))
             (filter (\<lambda>fr. ''S'' \<in> dom (fieldOutputs fr) \<and> foName \<notin> dom (fieldOutputs fr)) frs)"
proof (induction frs arbitrary: out frs')
  case Nil
  then show ?case by simp
next
  case (Cons fr frs)
  obtain err1 out1 fr1 where v: "visit_frame g st fr = (err1, out1, fr1)"
    by (cases "visit_frame g st fr")
  obtain err2 out2 frs2 where r: "walk_frames g st frs = (err2, out2, frs2)"
    by (cases "walk_frames g st frs")
  from Cons.prems v r have e: "err1 = None" "err2 = None" "out = out1 @ out2" "frs' = fr1 # frs2"
    by (auto split: option.splits)
  from Cons.IH r e have ih:
    "frs2 = map (\<lambda>fr. if ''S'' \<in> dom (fieldOutputs fr) \<and> foName \<notin> dom (fieldOutputs fr)
                       then snd (calculate g fr) else fr) frs"
    "out2 = map (\<lambda>fr. Stdout (step_name st @ '' '' @ frame_description fr))
             (filter (\<lambda>fr. ''S'' \<in> dom (fieldOutputs fr) \<and> foName \<notin> dom (fieldOutputs fr)) frs)"
    by simp_all
  show ?case
  proof (cases "''S'' \<in> dom (fieldOutputs fr) \<and> foName \<notin> dom (fieldOutputs fr)")
    case True
    with v have "out1 = [Stdout (step_name st @ '' '' @ frame_description fr)]"
      "fr1 = snd (calculate g fr)"
      by (simp_all add: visit_frame_calculate)
    with True e ih show ?thesis by simp
  next
    case False
    with v have "out1 = []" "fr1 = fr"
      by (simp_all add: visit_frame_skip)
    with False e ih show ?thesis by simp
  qed
qed

lemma walk_steps_None:
  "walk_steps g sts = (None, out, sts') \<Longrightarrow>
     sts' = map (\<lambda>(key, st). (key, st\<lparr>frames :=
               map (\<lambda>fr. if ''S'' \<in> dom (fieldOutputs fr) \<and> foName \<notin> dom (fieldOutputs fr)
                         then snd (calculate g fr) else fr) (frames st)\<rparr>)) sts \<and>
     out = concat (map (\<lambda>(key, st).
               map (\<lambda>fr. Stdout (step_name st @ '' '' @ frame_description fr))
                 (filter (\<lambda>fr. ''S'' \<in> dom (fieldOutputs fr) \<and> foName \<notin> dom (fieldOutputs fr))
                    (frames st))) sts)"
proof (induction sts arbitrary: out sts')
  case Nil
  then show ?case by simp
next
  case (Cons p sts)
  obtain key st where p: "p = (key, st)" by (cases p)
  obtain err1 out1 frs1 where f: "walk_frames g st (frames st) = (err1, out1, frs1)"
    by (cases "walk_frames g st (frames st)")
  obtain err2 out2 sts2 where r: "walk_steps g sts = (err2, out2, sts2)"
    by (cases "walk_steps g sts")
  from Cons.prems p f r have e: "err1 = None" "err2 = None" "out = out1 @ out2"
    "sts' = (key, st\<lparr>frames := frs1\<rparr>) # sts2"
    by (auto split: option.splits)
  from f e have "walk_frames g st (frames st) = (None, out1, frs1)" by simp
  note fr = walk_frames_None [OF this]
  from r e have "walk_steps g sts = (None, out2, sts2)" by simp
  note ih = Cons.IH [OF this]
  from fr ih e p show ?case by simp
qed

lemma walk_frames_skip:
  "\<forall>fr \<in> set frs. \<not> (''S'' \<in> dom (fieldOutputs fr) \<and> foName \<notin> dom (fieldOutputs fr)) \<Longrightarrow>
     walk_frames g st frs = (None, [], frs)"
  by (induction frs) (simp_all add: visit_frame_skip)

lemma walk_steps_skip:
  "\<forall>p \<in> set sts. \<forall>fr \<in> set (frames (snd p)).
      \<not> (''S'' \<in> dom (fieldOutputs fr) \<and> foName \<notin> dom (fieldOutputs fr)) \<Longrightarrow>
     walk_steps g sts = (None, [], sts)"
proof (induction sts)
  case Nil
  then show ?case by simp
next
  case (Cons p sts)
  obtain key st where p: "p = (key, st)" by (cases p)
  from Cons.prems p have "walk_frames g st (frames st) = (None, [], frames st)"
    by (intro walk_frames_skip) simp
  moreover from Cons have "walk_steps g sts = (None, [], sts)" by simp
  ultimately show ?case using p by simp
qed

lemma fromOdb_skip:
  assumes db: "archives w odbName = Some db"
    and all_done: "\<forall>p \<in> set (steps db). \<forall>fr \<in> set (frames (snd p)).
      \<not> (''S'' \<in> dom (fieldOutputs fr) \<and> foName \<notin> dom (fieldOutputs fr))"
  shows "fromOdb g odbName w = (None, w\<lparr>trace := trace w @ [OpenOdb odbName, CloseOdb odbName]\<rparr>)"
proof -
  from all_done have "walk_steps g (steps db) = (None, [], steps db)"
    by (rule walk_steps_skip)
  moreover from db have "(archives w)(odbName \<mapsto> db) = archives w"
    by (simp add: fun_upd_idem)
  ultimately show ?thesis
    using db by (simp add: fromOdb_def)
qed

lemma demo_walk_steps:
  "walk_steps demo_getScalarField (steps demo_odb)
     = (None, [Stdout ''Step-1 Increment 1''], steps demo_odb_done)"
proof -
  have U: "visit_frame demo_getScalarField st demo_frame_U = (None, [], demo_frame_U)" for st
    by (rule visit_frame_skip) (simp add: demo_frame_U_def)
  have "visit_frame demo_getScalarField st demo_frame =
      (fst (calculate demo_getScalarField demo_frame),
       [Stdout (step_name st @ '' '' @ frame_description demo_frame)],
       snd (calculate demo_getScalarField demo_frame))" for st
    by (rule visit_frame_calculate) (simp_all add: demo_frame_def foName_def)
  then have S: "visit_frame demo_getScalarField st demo_frame =
      (None, [Stdout (step_name st @ '' Increment 1'')], demo_frame_done)" for st
    by (simp add: demo_calculate) (simp add: demo_frame_def)
  show ?thesis
    by (simp add: demo_odb_def demo_odb_done_def U S)
qed

lemma demo_fromOdb:
  "fromOdb demo_getScalarField ''Job-2.odb'' (demo_world\<lparr>trace := t\<rparr>) =
     (None, \<lparr>archives = (archives demo_world)(''Job-2.odb'' \<mapsto> demo_odb_done),
             trace = t @ [OpenOdb ''Job-2.odb'', Stdout ''Step-1 Increment 1'',
                          CloseOdb ''Job-2.odb'']\<rparr>)"
proof -
  have "archives (demo_world\<lparr>trace := t\<rparr>) ''Job-2.odb'' = Some demo_odb"
    by (simp add: demo_world_def)
  then show ?thesis
    by (simp add: fromOdb_def demo_walk_steps) (simp add: demo_odb_done_def demo_odb_def)
qed


text \<open>
  C4. When \<^verbatim>\<open>fromOdb\<close> returns, \<^verbatim>\<open>calculate\<close> has been applied to exactly the frames
  whose fields contain \<^verbatim>\<open>S\<close> and do not contain \<^verbatim>\<open>S_MISES\<close>, in stored order, with one
  printed line for each, and every other frame is as it was. A second run on the same
  database then applies \<^verbatim>\<open>calculate\<close> to no frame and leaves every database as it is;
  so does a run on any database in which every frame with \<^verbatim>\<open>S\<close> has \<^verbatim>\<open>S_MISES\<close>.
\<close>

theorem fromOdb_guard:
  fixes g :: "'a::linordered_idom field \<Rightarrow> 'a field"
  assumes db: "archives w odbName = Some db"
  shows
    "(fromOdb g odbName w = (None, w') \<longrightarrow>
        archives w' = (archives w)(odbName \<mapsto> db\<lparr>steps :=
          map (\<lambda>(key, st). (key, st\<lparr>frames :=
            map (\<lambda>fr. if ''S'' \<in> dom (fieldOutputs fr) \<and> foName \<notin> dom (fieldOutputs fr)
                      then snd (calculate g fr) else fr) (frames st)\<rparr>)) (steps db)\<rparr>) \<and>
        trace w' = trace w @ [OpenOdb odbName] @
          concat (map (\<lambda>(key, st).
            map (\<lambda>fr. Stdout (step_name st @ '' '' @ frame_description fr))
              (filter (\<lambda>fr. ''S'' \<in> dom (fieldOutputs fr) \<and> foName \<notin> dom (fieldOutputs fr))
                 (frames st))) (steps db)) @ [CloseOdb odbName] \<and>
        fromOdb g odbName w' = (None, w'\<lparr>trace := trace w' @ [OpenOdb odbName, CloseOdb odbName]\<rparr>))
     \<and>
     ((\<forall>p \<in> set (steps db). \<forall>fr \<in> set (frames (snd p)).
          ''S'' \<in> dom (fieldOutputs fr) \<longrightarrow> foName \<in> dom (fieldOutputs fr)) \<longrightarrow>
        fromOdb g odbName w = (None, w\<lparr>trace := trace w @ [OpenOdb odbName, CloseOdb odbName]\<rparr>))"
proof (intro conjI impI)
  assume "\<forall>p \<in> set (steps db). \<forall>fr \<in> set (frames (snd p)).
      ''S'' \<in> dom (fieldOutputs fr) \<longrightarrow> foName \<in> dom (fieldOutputs fr)"
  then have "\<forall>p \<in> set (steps db). \<forall>fr \<in> set (frames (snd p)).
      \<not> (''S'' \<in> dom (fieldOutputs fr) \<and> foName \<notin> dom (fieldOutputs fr))"
    by blast
  with db show "fromOdb g odbName w
      = (None, w\<lparr>trace := trace w @ [OpenOdb odbName, CloseOdb odbName]\<rparr>)"
    by (rule fromOdb_skip)
next
  assume run: "fromOdb g odbName w = (None, w')"
  let ?upd = "\<lambda>fr. if ''S'' \<in> dom (fieldOutputs fr) \<and> foName \<notin> dom (fieldOutputs fr)
                    then snd (calculate g fr) else fr"
  let ?sts = "map (\<lambda>(key, st). (key, st\<lparr>frames := map ?upd (frames st)\<rparr>)) (steps db)"
  obtain err out sts' where ws: "walk_steps g (steps db) = (err, out, sts')"
    by (cases "walk_steps g (steps db)")
  with db run have err: "err = None"
    and w': "w' = \<lparr>archives = (archives w)(odbName \<mapsto> db\<lparr>steps := sts'\<rparr>),
                   trace = trace w @ [OpenOdb odbName] @ out @ [CloseOdb odbName]\<rparr>"
    by (simp_all add: fromOdb_def)
  from ws err have "walk_steps g (steps db) = (None, out, sts')" by simp
  note r = walk_steps_None [OF this]
  from r w' show a: "archives w' = (archives w)(odbName \<mapsto> db\<lparr>steps := ?sts\<rparr>)"
    by simp
  from r w' show "trace w' = trace w @ [OpenOdb odbName] @
          concat (map (\<lambda>(key, st).
            map (\<lambda>fr. Stdout (step_name st @ '' '' @ frame_description fr))
              (filter (\<lambda>fr. ''S'' \<in> dom (fieldOutputs fr) \<and> foName \<notin> dom (fieldOutputs fr))
                 (frames st))) (steps db)) @ [CloseOdb odbName]"
    by simp
  from a have db': "archives w' odbName = Some (db\<lparr>steps := ?sts\<rparr>)" by simp
  have "\<forall>p \<in> set (steps (db\<lparr>steps := ?sts\<rparr>)). \<forall>fr \<in> set (frames (snd p)).
      \<not> (''S'' \<in> dom (fieldOutputs fr) \<and> foName \<notin> dom (fieldOutputs fr))"
  proof (intro ballI)
    fix p fr
    assume "p \<in> set (steps (db\<lparr>steps := ?sts\<rparr>))" and fr: "fr \<in> set (frames (snd p))"
    then obtain key st where "(key, st) \<in> set (steps db)"
      and "p = (key, st\<lparr>frames := map ?upd (frames st)\<rparr>)"
      by auto
    with fr have "fr \<in> ?upd ` set (frames st)" by simp
    then obtain fr0 where fr0: "fr = ?upd fr0" by (rule imageE)
    show "\<not> (''S'' \<in> dom (fieldOutputs fr) \<and> foName \<notin> dom (fieldOutputs fr))"
    proof (cases "''S'' \<in> dom (fieldOutputs fr0) \<and> foName \<notin> dom (fieldOutputs fr0)")
      case True
      then have "foName \<in> dom (fieldOutputs (snd (calculate g fr0)))"
        by (intro calculate_dom) simp
      with True fr0 show ?thesis by simp
    next
      case False
      with fr0 show ?thesis by simp
    qed
  qed
  with db' show "fromOdb g odbName w'
      = (None, w'\<lparr>trace := trace w' @ [OpenOdb odbName, CloseOdb odbName]\<rparr>)"
    by (rule fromOdb_skip)
qed

text \<open>
  The small database: the frame without stresses is skipped, the frame with stresses
  receives the new field, and the second run changes nothing.
\<close>

theorem fromOdb_guard_witness:
  "fromOdb demo_getScalarField ''Job-2.odb'' demo_world =
     (None, \<lparr>archives = (archives demo_world)(''Job-2.odb'' \<mapsto> demo_odb_done),
             trace = [OpenOdb ''Job-2.odb'', Stdout ''Step-1 Increment 1'',
                      CloseOdb ''Job-2.odb'']\<rparr>) \<and>
   fromOdb demo_getScalarField ''Job-2.odb''
       \<lparr>archives = (archives demo_world)(''Job-2.odb'' \<mapsto> demo_odb_done),
        trace = [OpenOdb ''Job-2.odb'', Stdout ''Step-1 Increment 1'', CloseOdb ''Job-2.odb'']\<rparr> =
     (None, \<lparr>archives = (archives demo_world)(''Job-2.odb'' \<mapsto> demo_odb_done),
             trace = [OpenOdb ''Job-2.odb'', Stdout ''Step-1 Increment 1'',
                      CloseOdb ''Job-2.odb'', OpenOdb ''Job-2.odb'', CloseOdb ''Job-2.odb'']\<rparr>)"
proof -
  let ?w' = "\<lparr>archives = (archives demo_world)(''Job-2.odb'' \<mapsto> demo_odb_done),
        trace = [OpenOdb ''Job-2.odb'', Stdout ''Step-1 Increment 1'', CloseOdb ''Job-2.odb'']\<rparr>"
  have db: "archives demo_world ''Job-2.odb'' = Some demo_odb"
    by (simp add: demo_world_def)
  have run: "fromOdb demo_getScalarField ''Job-2.odb'' demo_world = (None, ?w')"
    using demo_fromOdb [of "[]"] by (simp add: demo_world_def)
  from fromOdb_guard [where g = demo_getScalarField and w' = ?w', OF db] run
  have "fromOdb demo_getScalarField ''Job-2.odb'' ?w'
      = (None, ?w'\<lparr>trace := trace ?w' @ [OpenOdb ''Job-2.odb'', CloseOdb ''Job-2.odb'']\<rparr>)"
    by blast
  with run show ?thesis by simp
qed

subsection \<open>The loop over the arguments\<close>

lemma demo_calculate_bad:
  "calculate demo_getScalarField demo_frame_bad =
     (Some (AssertionError ''Data elements must be in Abaqus symmetric tensor format''),
      demo_frame_bad\<lparr>fieldOutputs := (fieldOutputs demo_frame_bad)
        (foName \<mapsto> FieldOutput foName ''Signed Mises equivalent stress'' ''SCALAR'')\<rparr>)"
proof -
  let ?S = "the (fieldOutputs demo_frame_bad ''S'')"
  have S: "fieldOutputs demo_frame_bad ''S'' = Some ?S"
    by (simp add: demo_frame_bad_def)
  have "sign_trace (data (hd (bulkDataBlocks ?S)))
      = Inl (AssertionError ''Data elements must be in Abaqus symmetric tensor format'')"
    by (simp add: demo_frame_bad_def sign_trace_def asarray_rows_def)
  then have "block_options (hd (bulkDataBlocks ?S)) Mb
      = Inl (AssertionError ''Data elements must be in Abaqus symmetric tensor format'')" for Mb
    by (simp add: block_options_def Let_def)
  moreover have "zip (bulkDataBlocks ?S) (bulkDataBlocks demo_MISES)
      = [(hd (bulkDataBlocks ?S), hd (bulkDataBlocks demo_MISES))]"
    by (simp add: demo_frame_bad_def demo_MISES_def)
  ultimately have "add_blocks F (zip (bulkDataBlocks ?S) (bulkDataBlocks demo_MISES))
      = (Some (AssertionError ''Data elements must be in Abaqus symmetric tensor format''), F)" for F
    by simp
  with calculate_field [OF S, of demo_getScalarField] show ?thesis
    by (simp add: demo_getScalarField_def) (simp add: demo_MISES_def)
qed

lemma demo_fromOdb_bad:
  "fst (fromOdb demo_getScalarField ''Job-1.odb'' (demo_world\<lparr>trace := t\<rparr>))
     = Some (AssertionError ''Data elements must be in Abaqus symmetric tensor format'')"
  "trace (snd (fromOdb demo_getScalarField ''Job-1.odb'' (demo_world\<lparr>trace := t\<rparr>)))
     = t @ [OpenOdb ''Job-1.odb'', Stdout ''Step-1 Increment 1'', CloseOdb ''Job-1.odb'']"
  "archives (snd (fromOdb demo_getScalarField ''Job-1.odb'' (demo_world\<lparr>trace := t\<rparr>))) ''Job-2.odb''
     = Some demo_odb"
proof -
  have "visit_frame demo_getScalarField st demo_frame_bad =
      (fst (calculate demo_getScalarField demo_frame_bad),
       [Stdout (step_name st @ '' '' @ frame_description demo_frame_bad)],
       snd (calculate demo_getScalarField demo_frame_bad))" for st
    by (rule visit_frame_calculate) (simp_all add: demo_frame_bad_def foName_def)
  then have v: "visit_frame demo_getScalarField st demo_frame_bad =
      (Some (AssertionError ''Data elements must be in Abaqus symmetric tensor format''),
       [Stdout (step_name st @ '' Increment 1'')],
       demo_frame_bad\<lparr>fieldOutputs := (fieldOutputs demo_frame_bad)
         (foName \<mapsto> FieldOutput foName ''Signed Mises equivalent stress'' ''SCALAR'')\<rparr>)" for st
    by (simp add: demo_calculate_bad) (simp add: demo_frame_bad_def)
  have db: "archives (demo_world\<lparr>trace := t\<rparr>) ''Job-1.odb'' = Some demo_odb_bad"
    by (simp add: demo_world_def)
  have ws: "fst (walk_steps demo_getScalarField (steps demo_odb_bad))
        = Some (AssertionError ''Data elements must be in Abaqus symmetric tensor format'')"
      "fst (snd (walk_steps demo_getScalarField (steps demo_odb_bad)))
        = [Stdout ''Step-1 Increment 1'']"
    by (simp_all add: demo_odb_bad_def v)
  from db ws show
    "fst (fromOdb demo_getScalarField ''Job-1.odb'' (demo_world\<lparr>trace := t\<rparr>))
       = Some (AssertionError ''Data elements must be in Abaqus symmetric tensor format'')"
    "trace (snd (fromOdb demo_getScalarField ''Job-1.odb'' (demo_world\<lparr>trace := t\<rparr>)))
       = t @ [OpenOdb ''Job-1.odb'', Stdout ''Step-1 Increment 1'', CloseOdb ''Job-1.odb'']"
    "archives (snd (fromOdb demo_getScalarField ''Job-1.odb'' (demo_world\<lparr>trace := t\<rparr>))) ''Job-2.odb''
       = Some demo_odb"
    by (simp_all add: fromOdb_def split_beta) (simp add: demo_world_def)
qed

lemma run_args_append:
  "run_args g argv pre w = (None, w1) \<Longrightarrow>
     run_args g argv (pre @ args) w = run_args g argv args w1"
proof (induction pre arbitrary: w)
  case Nil
  then show ?case by simp
next
  case (Cons a pre)
  obtain err w0 where h: "handle_arg g argv a w = (err, w0)"
    by (cases "handle_arg g argv a w")
  with Cons.prems have "err = None" "run_args g argv pre w0 = (None, w1)"
    by (auto split: option.splits)
  with Cons.IH h show ?case by simp
qed


text \<open>
  C7, as stated, fails: with the arguments \<^verbatim>\<open>Job-1.odb Job-2.odb\<close>, where the tensors of
  \<^verbatim>\<open>Job-1.odb\<close> have five components, the assertion of \<^verbatim>\<open>sign_trace\<close> ends the run, and
  \<^verbatim>\<open>Job-2.odb\<close> is neither opened nor changed.
\<close>

theorem main_failure_skips_remaining:
  "fst (main demo_getScalarField [''s_mises.py'', ''Job-1.odb'', ''Job-2.odb''] demo_world)
     = Some (AssertionError ''Data elements must be in Abaqus symmetric tensor format'') \<and>
   trace (snd (main demo_getScalarField [''s_mises.py'', ''Job-1.odb'', ''Job-2.odb''] demo_world))
     = [Stdout ''Job-1.odb'', OpenOdb ''Job-1.odb'', Stdout ''Step-1 Increment 1'',
        CloseOdb ''Job-1.odb''] \<and>
   archives (snd (main demo_getScalarField [''s_mises.py'', ''Job-1.odb'', ''Job-2.odb''] demo_world))
     ''Job-2.odb'' = Some demo_odb"
proof -
  let ?argv = "[''s_mises.py'', ''Job-1.odb'', ''Job-2.odb'']"
  have t: "demo_world\<lparr>trace := trace demo_world @ [Stdout ''Job-1.odb'']\<rparr>
      = demo_world\<lparr>trace := [Stdout ''Job-1.odb'']\<rparr>"
    by (simp add: demo_world_def)
  have h: "handle_arg demo_getScalarField ?argv ''Job-1.odb'' demo_world
      = fromOdb demo_getScalarField ''Job-1.odb'' (demo_world\<lparr>trace := [Stdout ''Job-1.odb'']\<rparr>)"
    by (simp add: handle_arg_def t)
  obtain e w' where r: "fromOdb demo_getScalarField ''Job-1.odb''
      (demo_world\<lparr>trace := [Stdout ''Job-1.odb'']\<rparr>) = (e, w')"
    by (cases "fromOdb demo_getScalarField ''Job-1.odb'' (demo_world\<lparr>trace := [Stdout ''Job-1.odb'']\<rparr>)")
  with demo_fromOdb_bad [of "[Stdout ''Job-1.odb'']"]
  have "e = Some (AssertionError ''Data elements must be in Abaqus symmetric tensor format'')"
    "trace w' = [Stdout ''Job-1.odb'', OpenOdb ''Job-1.odb'', Stdout ''Step-1 Increment 1'',
        CloseOdb ''Job-1.odb'']"
    "archives w' ''Job-2.odb'' = Some demo_odb"
    by simp_all
  with h r show ?thesis by (simp add: main_def)
qed

text \<open>
  C7, amended. The arguments are handled in the order given; an error raised while one of
  them is handled leaves the loop, and it is the result of the run: the arguments after it
  are not looked at.
\<close>

theorem main_stops_at_failure:
  fixes g :: "'a::linordered_idom field \<Rightarrow> 'a field"
  assumes "argv = prog # pre @ arg # rest"
    and "run_args g argv pre w = (None, w1)"
    and "handle_arg g argv arg w1 = (Some e, w2)"
  shows "main g argv w = (Some e, w2)"
proof -
  from assms(2) have "run_args g argv (pre @ arg # rest) w = run_args g argv (arg # rest) w1"
    by (rule run_args_append)
  with assms(1,3) show ?thesis by (simp add: main_def)
qed

text \<open>The doctests run, then \<^verbatim>\<open>Job-1.odb\<close> raises, and \<^verbatim>\<open>Job-2.odb\<close> is not opened.\<close>

theorem main_stops_at_failure_witness:
  "fst (main demo_getScalarField [''s_mises.py'', ''--test'', ''Job-1.odb'', ''Job-2.odb''] demo_world)
     = Some (AssertionError ''Data elements must be in Abaqus symmetric tensor format'') \<and>
   trace (snd (main demo_getScalarField [''s_mises.py'', ''--test'', ''Job-1.odb'', ''Job-2.odb'']
       demo_world))
     = [Doctest, Stdout ''Job-1.odb'', OpenOdb ''Job-1.odb'', Stdout ''Step-1 Increment 1'',
        CloseOdb ''Job-1.odb'']"
proof -
  let ?argv = "[''s_mises.py'', ''--test'', ''Job-1.odb'', ''Job-2.odb'']"
  let ?w1 = "demo_world\<lparr>trace := [Doctest]\<rparr>"
  have argv: "?argv = ''s_mises.py'' # [''--test''] @ ''Job-1.odb'' # [''Job-2.odb'']"
    by simp
  have pre: "run_args demo_getScalarField ?argv [''--test''] demo_world = (None, ?w1)"
    by (simp add: handle_arg_def demo_world_def)
  have h: "handle_arg demo_getScalarField ?argv ''Job-1.odb'' ?w1
      = fromOdb demo_getScalarField ''Job-1.odb'' (demo_world\<lparr>trace := [Doctest, Stdout ''Job-1.odb'']\<rparr>)"
    by (simp add: handle_arg_def)
  obtain e w2 where r: "fromOdb demo_getScalarField ''Job-1.odb''
      (demo_world\<lparr>trace := [Doctest, Stdout ''Job-1.odb'']\<rparr>) = (e, w2)"
    by (cases "fromOdb demo_getScalarField ''Job-1.odb''
      (demo_world\<lparr>trace := [Doctest, Stdout ''Job-1.odb'']\<rparr>)")
  with demo_fromOdb_bad [of "[Doctest, Stdout ''Job-1.odb'']"]
  have e: "e = Some (AssertionError ''Data elements must be in Abaqus symmetric tensor format'')"
    and t: "trace w2 = [Doctest, Stdout ''Job-1.odb'', OpenOdb ''Job-1.odb'',
        Stdout ''Step-1 Increment 1'', CloseOdb ''Job-1.odb'']"
    by simp_all
  from h r e have "handle_arg demo_getScalarField ?argv ''Job-1.odb'' ?w1
      = (Some (AssertionError ''Data elements must be in Abaqus symmetric tensor format''), w2)"
    by simp
  from main_stops_at_failure [OF argv pre this] t show ?thesis by simp
qed

lemma handle_arg_help:
  "handle_arg g argv ''--help'' w = (None, w\<lparr>trace := trace w @ [Stdout module_doc]\<rparr>)"
  by (simp add: handle_arg_def)

lemma handle_arg_test:
  "handle_arg g argv ''--test'' w = (None, w\<lparr>trace := trace w @ [Doctest]\<rparr>)"
  by (simp add: handle_arg_def)

lemma run_args_options_only:
  "set args \<subseteq> {''--help'', ''--test''} \<Longrightarrow>
     run_args g argv args w =
       (None, w\<lparr>trace := trace w @
          map (\<lambda>arg. if ''--help'' = arg then Stdout module_doc else Doctest) args\<rparr>)"
proof (induction args arbitrary: w)
  case Nil
  then show ?case by simp
next
  case (Cons a args)
  from Cons.prems have a: "a = ''--help'' \<or> a = ''--test''" and rest: "set args \<subseteq> {''--help'', ''--test''}"
    by simp_all
  from a show ?case
  proof
    assume "a = ''--help''"
    then show ?thesis
      using Cons.IH [OF rest] by (simp add: handle_arg_help)
  next
    assume "a = ''--test''"
    then show ?thesis
      using Cons.IH [OF rest] by (simp add: handle_arg_test)
  qed
qed


text \<open>
  C8, as stated, fails: after \<^verbatim>\<open>--help\<close>, and after \<^verbatim>\<open>--test\<close>, the program does not
  exit, and the database named by the next argument is processed.
\<close>

theorem main_help_continues:
  "main demo_getScalarField [''s_mises.py'', ''--help'', ''Job-2.odb''] demo_world =
     (None, \<lparr>archives = (archives demo_world)(''Job-2.odb'' \<mapsto> demo_odb_done),
             trace = [Stdout module_doc, Stdout ''Job-2.odb'', OpenOdb ''Job-2.odb'',
                      Stdout ''Step-1 Increment 1'', CloseOdb ''Job-2.odb'']\<rparr>) \<and>
   main demo_getScalarField [''s_mises.py'', ''--test'', ''Job-2.odb''] demo_world =
     (None, \<lparr>archives = (archives demo_world)(''Job-2.odb'' \<mapsto> demo_odb_done),
             trace = [Doctest, Stdout ''Job-2.odb'', OpenOdb ''Job-2.odb'',
                      Stdout ''Step-1 Increment 1'', CloseOdb ''Job-2.odb'']\<rparr>)"
proof -
  have t: "demo_world\<lparr>trace := trace demo_world @ [ev, Stdout ''Job-2.odb'']\<rparr>
      = demo_world\<lparr>trace := [ev, Stdout ''Job-2.odb'']\<rparr>" for ev
    by (simp add: demo_world_def)
  have "handle_arg demo_getScalarField [''s_mises.py'', opt, ''Job-2.odb''] ''Job-2.odb''
      (demo_world\<lparr>trace := trace demo_world @ [ev]\<rparr>) =
     (None, \<lparr>archives = (archives demo_world)(''Job-2.odb'' \<mapsto> demo_odb_done),
             trace = [ev, Stdout ''Job-2.odb'', OpenOdb ''Job-2.odb'',
                      Stdout ''Step-1 Increment 1'', CloseOdb ''Job-2.odb'']\<rparr>)" for opt ev
    using demo_fromOdb [of "[ev, Stdout ''Job-2.odb'']"]
    by (simp add: handle_arg_def t)
  then show ?thesis
    by (simp add: main_def handle_arg_help handle_arg_test)
qed

text \<open>
  C8, amended. The argument \<^verbatim>\<open>--help\<close> prints the module's documentation and the
  argument \<^verbatim>\<open>--test\<close> runs the doctests; neither is taken for a path, and the loop goes
  on with the next argument. When all arguments are \<^verbatim>\<open>--help\<close> or \<^verbatim>\<open>--test\<close>, no
  database is opened or changed.
\<close>

theorem run_args_help_test:
  fixes g :: "'a::linordered_idom field \<Rightarrow> 'a field"
  shows
    "run_args g argv (''--help'' # args) w
       = run_args g argv args (w\<lparr>trace := trace w @ [Stdout module_doc]\<rparr>) \<and>
     run_args g argv (''--test'' # args) w
       = run_args g argv args (w\<lparr>trace := trace w @ [Doctest]\<rparr>) \<and>
     (set args \<subseteq> {''--help'', ''--test''} \<longrightarrow>
        run_args g argv args w =
          (None, w\<lparr>trace := trace w @
             map (\<lambda>arg. if ''--help'' = arg then Stdout module_doc else Doctest) args\<rparr>))"
  by (simp add: handle_arg_help handle_arg_test run_args_options_only)

text \<open>Both options, and no path.\<close>

theorem run_args_help_test_witness:
  "main demo_getScalarField [''s_mises.py'', ''--help'', ''--test''] demo_world
     = (None, demo_world\<lparr>trace := [Stdout module_doc, Doctest]\<rparr>)"
proof -
  have "set [''--help'', ''--test''] \<subseteq> {''--help'', ''--test''}" by simp
  with run_args_help_test [where g = demo_getScalarField and args = "[''--help'', ''--test'']"
      and argv = "[''s_mises.py'', ''--help'', ''--test'']" and w = demo_world]
  have "run_args demo_getScalarField [''s_mises.py'', ''--help'', ''--test'']
      [''--help'', ''--test''] demo_world =
      (None, demo_world\<lparr>trace := trace demo_world @
         map (\<lambda>arg. if ''--help'' = arg then Stdout module_doc else Doctest)
           [''--help'', ''--test'']\<rparr>)"
    by blast
  then show ?thesis by (simp add: main_def demo_world_def)
qed

end
